theory Spec2Isabelle
  imports Main "HOL-Library.Multiset"
begin

section \<open>Text: the string operations the chat tools use\<close>

text \<open>
  JavaScript strings are modelled as HOL strings holding ASCII text; the pictographs that
  open the replies of the tools are carried as their UTF-8 bytes. On ASCII text
  \<open>String.prototype.trim\<close> strips the six white space characters TAB, LF, VT, FF, CR
  and SPACE from both ends, and \<open>toLowerCase\<close> maps \<open>A\<close>..\<open>Z\<close> to \<open>a\<close>..\<open>z\<close>.
  Beyond ASCII JavaScript also strips Unicode white space and lowers other letters;
  that is outside this model.
\<close>

definition is_space :: "char \<Rightarrow> bool" where
  "is_space c = (c \<in> set [CHR 0x09, CHR 0x0A, CHR 0x0B, CHR 0x0C, CHR 0x0D, CHR '' ''])"

definition trim :: "string \<Rightarrow> string" where
  "trim s = rev (dropWhile is_space (rev (dropWhile is_space s)))"

definition lower_char :: "char \<Rightarrow> char" where
  "lower_char c =
     (case map_of (zip ''ABCDEFGHIJKLMNOPQRSTUVWXYZ'' ''abcdefghijklmnopqrstuvwxyz'') c of
        None \<Rightarrow> c
      | Some l \<Rightarrow> l)"

definition toLowerCase :: "string \<Rightarrow> string" where
  "toLowerCase s = map lower_char s"

text \<open>\<open>s.replace(a, b)\<close> with a one-character string pattern: the first occurrence only.\<close>

fun replace_first :: "char \<Rightarrow> char \<Rightarrow> string \<Rightarrow> string" where
  "replace_first a b [] = []"
| "replace_first a b (c # cs) = (if c = a then b # cs else c # replace_first a b cs)"

text \<open>\<open>s.split(d)[0]\<close>: the text before the first \<open>d\<close>, all of \<open>s\<close> when there is none.\<close>

definition split_head :: "char \<Rightarrow> string \<Rightarrow> string" where
  "split_head d s = takeWhile (\<lambda>c. c \<noteq> d) s"

text \<open>\<open>xs.join(sep)\<close>.\<close>

fun join :: "string \<Rightarrow> string list \<Rightarrow> string" where
  "join sep [] = []"
| "join sep [x] = x"
| "join sep (x # y # ys) = x @ sep @ join sep (y # ys)"




definition cross_mark :: string where
  "cross_mark = [CHR 0xE2, CHR 0x9D, CHR 0x8C]"

definition check_mark :: string where
  "check_mark = [CHR 0xE2, CHR 0x9C, CHR 0x85]"

definition warning_sign :: string where
  "warning_sign = [CHR 0xE2, CHR 0x9A, CHR 0xA0, CHR 0xEF, CHR 0xB8, CHR 0x8F]"

definition door_sign :: string where
  "door_sign = [CHR 0xF0, CHR 0x9F, CHR 0x9A, CHR 0xAA]"

definition envelope_sign :: string where
  "envelope_sign = [CHR 0xF0, CHR 0x9F, CHR 0x93, CHR 0xA8]"

definition clock_sign :: string where
  "clock_sign = [CHR 0xF0, CHR 0x9F, CHR 0x95, CHR 0x92]"

definition balloon_sign :: string where
  "balloon_sign = [CHR 0xF0, CHR 0x9F, CHR 0x92, CHR 0xAC]"

section \<open>The process state and the row store\<close>

text \<open>The global \<open>session\<close> object; \<open>username\<close> is \<open>None\<close> for \<open>null\<close>.\<close>

record session =
  username :: "string option"
  last_message_id :: int

text \<open>A row of table \<open>puchchat_users\<close> and a row of table \<open>puchchat\<close>.\<close>

record user_row =
  u_username :: string
  u_is_connected :: bool

record message_row =
  m_id :: int
  m_username :: string
  m_message :: string
  m_created_at :: string

text \<open>
  A store call either resolves with \<open>{ data, error: null }\<close>, resolves with an
  \<open>error\<close> object (its \<open>code\<close> and its \<open>message\<close>), or rejects, which the tools
  catch as an exception \<open>e\<close> (its \<open>message\<close>).
\<close>

datatype store_error = Returned string string | Thrown string

datatype store_call =
    Select_users string
  | Select_user_single string
  | Update_users string bool
  | Insert_user string bool
  | Select_messages_gt int
  | Insert_message string string
  | Select_connected

text \<open>
  The world a tool runs in: the session, the secret \<open>TOKEN\<close> of the environment, the two
  tables behind the Supabase client with the counter and the clock the store fills
  \<open>id\<close> and \<open>created_at\<close> from, the failures the transport is going to inject into the
  coming store calls (\<open>faults\<close>, one entry per call, \<open>None\<close> or nothing for a call
  that goes through), and the record of the store calls made so far with what each
  gave back (\<open>calls\<close>).
\<close>

record world =
  session :: session
  TOKEN :: string
  puchchat_users :: "user_row list"
  puchchat :: "message_row list"
  next_id :: int
  clock :: string
  faults :: "store_error option list"
  calls :: "(store_call \<times> store_error option) list"

definition error_of :: "store_error + 'a \<Rightarrow> store_error option" where
  "error_of r = (case r of Inl e \<Rightarrow> Some e | Inr _ \<Rightarrow> None)"

text \<open>
  Modelled from the spec: the row store, that is \<open>store\<close> and the seven queries after
  it. The store is the hosted Supabase service, reached through the client library;
  neither is under src/, only the calls the tools make are. Section 6 of the
  specification gives the two tables, \<open>messages(id: auto-increment integer PK, username,
  message, created_at default now)\<close> and \<open>users(username: text unique, is_connected)\<close>,
  and the kinds of query: insert, update by equality filter, select with a filter in
  ascending order. A query returns every row that matches. A call the transport fails
  changes no table. \<open>single()\<close> gives an error with code PGRST116 unless exactly one row
  matches. Nothing in the tables forbids an empty username or an empty message.
\<close>

definition store :: "store_call \<Rightarrow> (world \<Rightarrow> (store_error + 'a) \<times> world) \<Rightarrow> world
    \<Rightarrow> (store_error + 'a) \<times> world" where
  "store c exec w =
     (case faults w of
        Some e # fs \<Rightarrow> (Inl e, w\<lparr>faults := fs, calls := calls w @ [(c, Some e)]\<rparr>)
      | _ \<Rightarrow>
          (let (r, w') = exec (w\<lparr>faults := tl (faults w)\<rparr>)
           in (r, w'\<lparr>calls := calls w' @ [(c, error_of r)]\<rparr>)))"

definition select_users :: "string \<Rightarrow> world \<Rightarrow> (store_error + user_row list) \<times> world" where
  "select_users u =
     store (Select_users u) (\<lambda>w. (Inr (filter (\<lambda>r. u_username r = u) (puchchat_users w)), w))"

definition select_user_single :: "string \<Rightarrow> world \<Rightarrow> (store_error + user_row) \<times> world" where
  "select_user_single u =
     store (Select_user_single u)
       (\<lambda>w. case filter (\<lambda>r. u_username r = u) (puchchat_users w) of
               [r] \<Rightarrow> (Inr r, w)
             | _ \<Rightarrow> (Inl (Returned ''PGRST116''
                      ''JSON object requested, multiple (or no) rows returned''), w))"

definition update_users :: "string \<Rightarrow> bool \<Rightarrow> world \<Rightarrow> (store_error + unit) \<times> world" where
  "update_users u b =
     store (Update_users u b)
       (\<lambda>w. (Inr (),
              w\<lparr>puchchat_users :=
                   map (\<lambda>r. if u_username r = u then r\<lparr>u_is_connected := b\<rparr> else r)
                     (puchchat_users w)\<rparr>))"

definition insert_user :: "string \<Rightarrow> bool \<Rightarrow> world \<Rightarrow> (store_error + unit) \<times> world" where
  "insert_user u b =
     store (Insert_user u b)
       (\<lambda>w. if u \<in> set (map u_username (puchchat_users w))
             then (Inl (Returned ''23505''
                      ''duplicate key value violates unique constraint''), w)
             else (Inr (),
                   w\<lparr>puchchat_users :=
                        puchchat_users w @ [\<lparr>u_username = u, u_is_connected = b\<rparr>]\<rparr>))"

definition select_messages_gt :: "int \<Rightarrow> world \<Rightarrow> (store_error + message_row list) \<times> world" where
  "select_messages_gt lastId =
     store (Select_messages_gt lastId)
       (\<lambda>w. (Inr (sort_key m_id (filter (\<lambda>m. lastId < m_id m) (puchchat w))), w))"

definition insert_message :: "string \<Rightarrow> string \<Rightarrow> world \<Rightarrow> (store_error + unit) \<times> world" where
  "insert_message u text =
     store (Insert_message u text)
       (\<lambda>w. (Inr (),
              w\<lparr>puchchat :=
                   puchchat w @ [\<lparr>m_id = next_id w, m_username = u, m_message = text,
                                  m_created_at = clock w\<rparr>],
                 next_id := next_id w + 1\<rparr>))"


section \<open>The tools\<close>

subsection \<open>Replies\<close>

definition auth_failed :: string where
  "auth_failed = cross_mark @ '' Authentication failed.''"

definition connect_fetch_error :: "string \<Rightarrow> string \<Rightarrow> string" where
  "connect_fetch_error uname msg =
     cross_mark @ '' Error fetching user data for '' @ [CHR 0x27] @ uname @ [CHR 0x27] @ '': '' @ msg"

definition connect_update_error :: "string \<Rightarrow> string \<Rightarrow> string" where
  "connect_update_error uname msg =
     cross_mark @ '' Error updating connection status for '' @ [CHR 0x27] @ uname @ [CHR 0x27]
       @ '': '' @ msg"

definition connect_insert_error :: "string \<Rightarrow> string \<Rightarrow> string" where
  "connect_insert_error uname msg =
     cross_mark @ '' Error connecting as new user '' @ [CHR 0x27] @ uname @ [CHR 0x27] @ '': '' @ msg"

definition connect_unexpected :: "string \<Rightarrow> string" where
  "connect_unexpected msg =
     cross_mark @ '' An unexpected error occurred while connecting: '' @ msg"

definition connected_as :: "string \<Rightarrow> string" where
  "connected_as uname = check_mark @ '' Connected as '' @ [CHR 0x27] @ uname @ [CHR 0x27] @ ''.''"

definition not_connected :: string where
  "not_connected = warning_sign @ '' You are not connected.''"

definition disconnect_error :: "string \<Rightarrow> string \<Rightarrow> string" where
  "disconnect_error uname msg =
     cross_mark @ '' Error disconnecting '' @ [CHR 0x27] @ uname @ [CHR 0x27] @ '': '' @ msg"

definition disconnect_unexpected :: "string \<Rightarrow> string" where
  "disconnect_unexpected msg =
     cross_mark @ '' An unexpected error occurred while disconnecting: '' @ msg"

definition disconnected :: "string \<Rightarrow> string" where
  "disconnected uname =
     door_sign @ '' User '' @ [CHR 0x27] @ uname @ [CHR 0x27] @ '' disconnected from chat.''"

definition must_connect_send :: string where
  "must_connect_send = warning_sign @ '' You must /connect before sending messages.''"

definition must_connect_fetch :: string where
  "must_connect_fetch = warning_sign @ '' You must /connect before fetching messages.''"

definition use_connect_first :: string where
  "use_connect_first = warning_sign @ '' You are not connected. Use /connect first.''"

definition send_error :: "string \<Rightarrow> string" where
  "send_error msg = cross_mark @ '' Error sending message: '' @ msg"

definition send_unexpected :: "string \<Rightarrow> string" where
  "send_unexpected msg =
     cross_mark @ '' An unexpected error occurred while sending your message: '' @ msg"

definition message_sent :: "string \<Rightarrow> string" where
  "message_sent text = envelope_sign @ '' Message sent: '' @ text"

definition fetch_error :: "string \<Rightarrow> string" where
  "fetch_error msg = cross_mark @ '' Error fetching messages: '' @ msg"

definition fetch_unexpected :: "string \<Rightarrow> string" where
  "fetch_unexpected msg =
     cross_mark @ '' An unexpected error occurred while fetching messages: '' @ msg"

definition no_new_messages :: string where
  "no_new_messages = clock_sign @ '' No new messages.''"

text \<open>
  One line of \<open>fetch\<close>. \<open>m_created_at\<close> holds the text \<open>new Date(m.created_at).toISOString()\<close>
  gives, such as \<open>2025-08-10T09:30:00.000Z\<close>; the parsing of dates is not modelled.
\<close>

definition format_message :: "message_row \<Rightarrow> string" where
  "format_message m =
     (let formattedDate = split_head (CHR ''.'') (replace_first (CHR ''T'') (CHR '' '') (m_created_at m))
      in ''['' @ formattedDate @ ''] '' @ m_username m @ '': '' @ m_message m)"

definition new_messages :: "message_row list \<Rightarrow> string" where
  "new_messages messages =
     balloon_sign @ '' New messages:'' @ [CHR 0x0A] @ join [CHR 0x0A] (map format_message messages)"






subsection \<open>The command gate\<close>

record auth_info =
  clientId :: string
  scopes :: "string list"

text \<open>
  \<open>SimpleAuthProvider.verify\<close>; the provided token is \<open>None\<close> when the caller passes
  \<open>undefined\<close> or \<open>null\<close>. The result is \<open>None\<close> for \<open>null\<close>.
\<close>

definition verify :: "string \<Rightarrow> string option \<Rightarrow> auth_info option" where
  "verify token providedToken =
     (if providedToken = Some token
      then Some \<lparr>clientId = ''puch-client'', scopes = [''*'']\<rparr>
      else None)"

subsection \<open>connect\<close>

text \<open>\<open>!username\<close> of JavaScript: \<open>null\<close> and the empty string are both falsy.\<close>

definition falsy :: "string option \<Rightarrow> bool" where
  "falsy u = (case u of None \<Rightarrow> True | Some s \<Rightarrow> s = [])"

definition connect_done :: "string \<Rightarrow> world \<Rightarrow> string \<times> world" where
  "connect_done uname w =
     (connected_as uname, w\<lparr>session := (session w)\<lparr>last_message_id := 0\<rparr>\<rparr>)"

text \<open>
  The second half of \<open>connect\<close>, from \<open>if (userData && userData.length > 0)\<close> on;
  \<open>userData\<close> is \<open>None\<close> for the \<open>null\<close> that comes with an error.
\<close>

definition connect_upsert :: "string \<Rightarrow> user_row list option \<Rightarrow> world \<Rightarrow> string \<times> world" where
  "connect_upsert uname userData w =
     (if (case userData of None \<Rightarrow> False | Some rows \<Rightarrow> 0 < length rows)
      then
        (case update_users uname True w of
           (Inl (Thrown msg), w1) \<Rightarrow> (connect_unexpected msg, w1)
         | (Inl (Returned code msg), w1) \<Rightarrow> (connect_update_error uname msg, w1)
         | (Inr _, w1) \<Rightarrow> connect_done uname w1)
      else
        (case insert_user uname True w of
           (Inl (Thrown msg), w1) \<Rightarrow> (connect_unexpected msg, w1)
         | (Inl (Returned code msg), w1) \<Rightarrow> (connect_insert_error uname msg, w1)
         | (Inr _, w1) \<Rightarrow> connect_done uname w1))"

definition connect :: "string \<Rightarrow> string option \<Rightarrow> world \<Rightarrow> string \<times> world" where
  "connect username0 authToken w =
     (case verify (TOKEN w) authToken of
        None \<Rightarrow> (auth_failed, w)
      | Some _ \<Rightarrow>
          (let uname = toLowerCase (trim username0);
               w0 = w\<lparr>session := (session w)\<lparr>username := Some uname\<rparr>\<rparr>
           in case select_users uname w0 of
                (Inl (Thrown msg), w1) \<Rightarrow> (connect_unexpected msg, w1)
              | (Inl (Returned code msg), w1) \<Rightarrow>
                  if code \<noteq> ''PGRST116'' then (connect_fetch_error uname msg, w1)
                  else connect_upsert uname None w1
              | (Inr rows, w1) \<Rightarrow> connect_upsert uname (Some rows) w1))"

subsection \<open>disconnect\<close>

definition disconnect :: "string option \<Rightarrow> world \<Rightarrow> string \<times> world" where
  "disconnect authToken w =
     (case verify (TOKEN w) authToken of
        None \<Rightarrow> (auth_failed, w)
      | Some _ \<Rightarrow>
          if falsy (username (session w)) then (not_connected, w)
          else
            (let uname = the (username (session w))
             in case update_users uname False w of
                  (Inl (Thrown msg), w1) \<Rightarrow> (disconnect_unexpected msg, w1)
                | (Inl (Returned code msg), w1) \<Rightarrow> (disconnect_error uname msg, w1)
                | (Inr _, w1) \<Rightarrow>
                    (disconnected uname,
                     w1\<lparr>session := (session w1)\<lparr>username := None, last_message_id := 0\<rparr>\<rparr>)))"

subsection \<open>send\<close>

text \<open>
  The check both \<open>send\<close> and \<open>fetch\<close> make before their work:
  \<open>if (userError || !userData || !userData.is_connected)\<close>. An error of the lookup, of
  whatever kind, is answered like a user who is not connected.
\<close>

definition send :: "string \<Rightarrow> string option \<Rightarrow> world \<Rightarrow> string \<times> world" where
  "send message authToken w =
     (case verify (TOKEN w) authToken of
        None \<Rightarrow> (auth_failed, w)
      | Some _ \<Rightarrow>
          if falsy (username (session w)) then (must_connect_send, w)
          else
            (let uname = the (username (session w))
             in case select_user_single uname w of
                  (Inl (Thrown msg), w1) \<Rightarrow> (send_unexpected msg, w1)
                | (Inl (Returned code msg), w1) \<Rightarrow> (use_connect_first, w1)
                | (Inr userData, w1) \<Rightarrow>
                    if \<not> u_is_connected userData then (use_connect_first, w1)
                    else
                      (case insert_message uname (trim message) w1 of
                         (Inl (Thrown msg), w2) \<Rightarrow> (send_unexpected msg, w2)
                       | (Inl (Returned code msg), w2) \<Rightarrow> (send_error msg, w2)
                       | (Inr _, w2) \<Rightarrow> (message_sent (trim message), w2))))"

subsection \<open>fetch\<close>

text \<open>\<open>session.last_message_id || 0\<close>: zero is the one falsy integer.\<close>

definition or_zero :: "int \<Rightarrow> int" where
  "or_zero n = (if n = 0 then 0 else n)"

definition fetch :: "string option \<Rightarrow> world \<Rightarrow> string \<times> world" where
  "fetch authToken w =
     (case verify (TOKEN w) authToken of
        None \<Rightarrow> (auth_failed, w)
      | Some _ \<Rightarrow>
          if falsy (username (session w)) then (must_connect_fetch, w)
          else
            (let uname = the (username (session w))
             in case select_user_single uname w of
                  (Inl (Thrown msg), w1) \<Rightarrow> (fetch_unexpected msg, w1)
                | (Inl (Returned code msg), w1) \<Rightarrow> (use_connect_first, w1)
                | (Inr userData, w1) \<Rightarrow>
                    if \<not> u_is_connected userData then (use_connect_first, w1)
                    else
                      (let lastId = or_zero (last_message_id (session w1))
                       in case select_messages_gt lastId w1 of
                            (Inl (Thrown msg), w2) \<Rightarrow> (fetch_unexpected msg, w2)
                          | (Inl (Returned code msg), w2) \<Rightarrow> (fetch_error msg, w2)
                          | (Inr messages, w2) \<Rightarrow>
                              if length messages = 0 then (no_new_messages, w2)
                              else
                                (new_messages messages,
                                 w2\<lparr>session := (session w2)
                                      \<lparr>last_message_id := m_id (messages ! (length messages - 1))\<rparr>\<rparr>))))"

subsection \<open>help and connectedUsers\<close>



section \<open>The realtime listener\<close>

text \<open>
  \<open>startRealtimeListener\<close>, the two callbacks it hands to \<open>subscribe\<close> and the \<open>SIGINT\<close>
  handler, as transitions of the state they act on: the variable \<open>realtimeChannel\<close>
  (channels are numbered in the order \<open>supabase.channel\<close> creates them), the delays of
  the pending \<open>setTimeout\<close> callbacks (each of them calls \<open>startRealtimeListener\<close>), the
  presence \<open>track\<close> calls, the channels \<open>unsubscribe\<close> was called on, and whether the
  process has exited. Delays are numbers of milliseconds; the passing of time itself is
  not modelled. Log lines are left out.
\<close>

datatype status = SUBSCRIBED | CHANNEL_ERROR | TIMED_OUT | CLOSED

datatype start_failure = Channel_throws | Subscribe_throws

record listener =
  realtimeChannel :: "nat option"
  created :: nat
  timers :: "nat list"
  tracked :: "(nat \<times> string) list"
  unsubscribed :: "nat list"
  exited :: bool

text \<open>
  The body of \<open>startRealtimeListener\<close>. \<open>failure\<close> says whether the client library
  throws, and where: in \<open>supabase.channel\<close>, before the assignment to
  \<open>realtimeChannel\<close>, or later in \<open>on\<close> or \<open>subscribe\<close>. The \<open>catch\<close> block schedules
  a retry.
\<close>

definition startRealtimeListener :: "start_failure option \<Rightarrow> listener \<Rightarrow> listener" where
  "startRealtimeListener failure l =
     (case failure of
        Some Channel_throws \<Rightarrow> l\<lparr>timers := timers l @ [5000]\<rparr>
      | Some Subscribe_throws \<Rightarrow>
          l\<lparr>realtimeChannel := Some (created l), created := created l + 1,
            timers := timers l @ [5000]\<rparr>
      | None \<Rightarrow> l\<lparr>realtimeChannel := Some (created l), created := created l + 1\<rparr>)"

text \<open>The first \<open>subscribe\<close> callback: three branches only log, \<open>CLOSED\<close> schedules a restart.\<close>

definition on_status :: "status \<Rightarrow> listener \<Rightarrow> listener" where
  "on_status st l =
     (if st = SUBSCRIBED then l
      else if st = CHANNEL_ERROR then l
      else if st = TIMED_OUT then l
      else if st = CLOSED then l\<lparr>timers := timers l @ [5000]\<rparr>
      else l)"

text \<open>
  The second \<open>subscribe\<close> callback: on \<open>SUBSCRIBED\<close> it tracks presence on the channel
  the variable holds, under \<open>session.username || 'anonymous'\<close>.
\<close>

definition on_status_presence :: "status \<Rightarrow> session \<Rightarrow> listener \<Rightarrow> listener" where
  "on_status_presence st sess l =
     (if st = SUBSCRIBED
      then (case realtimeChannel l of
              None \<Rightarrow> l
            | Some c \<Rightarrow>
                l\<lparr>tracked := tracked l @
                     [(c, if falsy (username sess) then ''anonymous'' else the (username sess))]\<rparr>)
      else l)"

text \<open>The \<open>SIGINT\<close> handler.\<close>

definition sigint :: "listener \<Rightarrow> listener" where
  "sigint l =
     (case realtimeChannel l of
        None \<Rightarrow> l\<lparr>exited := True\<rparr>
      | Some c \<Rightarrow> l\<lparr>unsubscribed := unsubscribed l @ [c], exited := True\<rparr>)"

text \<open>
  What happens to the listener: the channel reports a status (both callbacks run), the
  oldest pending timer fires, or the process is interrupted. Nothing runs after the exit.
\<close>

datatype event = Status status | Timer_fires "start_failure option" | Sigint

definition step :: "session \<Rightarrow> event \<Rightarrow> listener \<Rightarrow> listener" where
  "step sess e l =
     (if exited l then l
      else case e of
             Status st \<Rightarrow> on_status_presence st sess (on_status st l)
           | Timer_fires failure \<Rightarrow>
               (case timers l of
                  [] \<Rightarrow> l
                | t # ts \<Rightarrow> startRealtimeListener failure (l\<lparr>timers := ts\<rparr>))
           | Sigint \<Rightarrow> sigint l)"

fun run :: "session \<Rightarrow> event list \<Rightarrow> listener \<Rightarrow> listener" where
  "run sess [] l = l"
| "run sess (e # es) l = run sess es (step sess e l)"

text \<open>The listener when the module has been loaded: one call of \<open>startRealtimeListener\<close>.\<close>

definition listener0 :: listener where
  "listener0 =
     startRealtimeListener None
       \<lparr>realtimeChannel = None, created = 0, timers = [], tracked = [], unsubscribed = [],
        exited = False\<rparr>"

section \<open>Runs of several commands, and sample states\<close>


text \<open>No store call of the coming ones is failed by the transport.\<close>

definition no_faults :: "world \<Rightarrow> bool" where
  "no_faults w = list_all (\<lambda>f. f = None) (faults w)"


text \<open>The store calls a command made, and whether one of them failed.\<close>

definition calls_of :: "world \<Rightarrow> world \<Rightarrow> (store_call \<times> store_error option) list" where
  "calls_of w w' = drop (length (calls w)) (calls w')"

definition store_failed :: "world \<Rightarrow> world \<Rightarrow> bool" where
  "store_failed w w' = list_ex (\<lambda>c. snd c \<noteq> None) (calls_of w w')"

text \<open>
  For \<open>connect\<close> a failure of the user lookup whose code is PGRST116 is not a failure:
  the guard \<open>userError.code !== 'PGRST116'\<close> lets it pass as "no rows found".
\<close>

definition lookup_not_found :: "store_call \<times> store_error option \<Rightarrow> bool" where
  "lookup_not_found c =
     (case c of
        (Select_users u, Some (Returned code msg)) \<Rightarrow> code = ''PGRST116''
      | _ \<Rightarrow> False)"

definition connect_store_failed :: "world \<Rightarrow> world \<Rightarrow> bool" where
  "connect_store_failed w w' =
     list_ex (\<lambda>c. snd c \<noteq> None \<and> \<not> lookup_not_found c) (calls_of w w')"

text \<open>
  The upsert as section 4.2 of the specification words it (\<open>upsertUserConnected\<close>:
  "inserts a new User row if absent, else updates \<open>is_connected\<close>"), on the list of user
  rows. It is what \<open>connect\<close> is compared with; the code does not call it.
\<close>

definition upsertUserConnected :: "string \<Rightarrow> bool \<Rightarrow> user_row list \<Rightarrow> user_row list" where
  "upsertUserConnected u connected rows =
     (if u \<in> u_username ` set rows
      then map (\<lambda>r. if u_username r = u then r\<lparr>u_is_connected := connected\<rparr> else r) rows
      else rows @ [\<lparr>u_username = u, u_is_connected = connected\<rparr>])"

text \<open>A fresh process, and one where \<open>alice\<close> has joined and two messages are stored.\<close>

definition fresh_world :: world where
  "fresh_world =
     \<lparr>session = \<lparr>username = None, last_message_id = 0\<rparr>, TOKEN = ''s3cret'',
      puchchat_users = [], puchchat = [], next_id = 1, clock = ''2025-08-10T09:30:00.000Z'',
      faults = [], calls = []\<rparr>"

definition alice_world :: world where
  "alice_world =
     \<lparr>session = \<lparr>username = Some ''alice'', last_message_id = 1\<rparr>, TOKEN = ''s3cret'',
      puchchat_users = [\<lparr>u_username = ''alice'', u_is_connected = True\<rparr>,
                         \<lparr>u_username = ''bob'', u_is_connected = True\<rparr>],
      puchchat = [\<lparr>m_id = 1, m_username = ''bob'', m_message = ''hi'',
                    m_created_at = ''2025-08-10T09:28:11.512Z''\<rparr>,
                  \<lparr>m_id = 2, m_username = ''bob'', m_message = ''anyone here?'',
                    m_created_at = ''2025-08-10T09:29:40.007Z''\<rparr>],
      next_id = 3, clock = ''2025-08-10T09:30:00.000Z'', faults = [], calls = []\<rparr>"

text \<open>The same two states with a store that is unreachable at the next call.\<close>

definition fresh_world_store_down :: world where
  "fresh_world_store_down =
     fresh_world\<lparr>faults := [Some (Returned ''503'' ''Service Unavailable'')]\<rparr>"

definition alice_world_store_down :: world where
  "alice_world_store_down =
     alice_world\<lparr>faults := [Some (Returned ''503'' ''Service Unavailable'')]\<rparr>"

text \<open>A fresh process whose first store call comes back with the "no rows" error code.\<close>

definition fresh_world_no_rows :: world where
  "fresh_world_no_rows =
     fresh_world\<lparr>faults := [Some (Returned ''PGRST116'' ''The result contains 0 rows'')]\<rparr>"

section \<open>What a store call changes\<close>

lemma select_users_props:
  "select_users u w = (r, w') \<Longrightarrow>
     session w' = session w \<and> TOKEN w' = TOKEN w \<and> puchchat_users w' = puchchat_users w
     \<and> puchchat w' = puchchat w \<and> next_id w' = next_id w \<and> clock w' = clock w
     \<and> faults w' = tl (faults w) \<and> calls w' = calls w @ [(Select_users u, error_of r)]"
  by (auto simp: select_users_def store_def error_of_def split: list.splits option.splits)

lemma select_user_single_props:
  "select_user_single u w = (r, w') \<Longrightarrow>
     session w' = session w \<and> TOKEN w' = TOKEN w \<and> puchchat_users w' = puchchat_users w
     \<and> puchchat w' = puchchat w \<and> next_id w' = next_id w \<and> clock w' = clock w
     \<and> faults w' = tl (faults w) \<and> calls w' = calls w @ [(Select_user_single u, error_of r)]"
  by (auto simp: select_user_single_def store_def error_of_def split: list.splits option.splits)

lemma select_messages_gt_props:
  "select_messages_gt n w = (r, w') \<Longrightarrow>
     session w' = session w \<and> TOKEN w' = TOKEN w \<and> puchchat_users w' = puchchat_users w
     \<and> puchchat w' = puchchat w \<and> next_id w' = next_id w \<and> clock w' = clock w
     \<and> faults w' = tl (faults w) \<and> calls w' = calls w @ [(Select_messages_gt n, error_of r)]"
  by (auto simp: select_messages_gt_def store_def error_of_def split: list.splits option.splits)

lemma update_users_props:
  "update_users u b w = (r, w') \<Longrightarrow>
     session w' = session w \<and> TOKEN w' = TOKEN w
     \<and> puchchat w' = puchchat w \<and> next_id w' = next_id w \<and> clock w' = clock w
     \<and> faults w' = tl (faults w) \<and> calls w' = calls w @ [(Update_users u b, error_of r)]
     \<and> puchchat_users w' =
         (case r of Inl e \<Rightarrow> puchchat_users w
          | Inr x \<Rightarrow> map (\<lambda>r. if u_username r = u then r\<lparr>u_is_connected := b\<rparr> else r) (puchchat_users w))"
  by (auto simp: update_users_def store_def error_of_def split: list.splits option.splits)

lemma insert_user_props:
  "insert_user u b w = (r, w') \<Longrightarrow>
     session w' = session w \<and> TOKEN w' = TOKEN w
     \<and> puchchat w' = puchchat w \<and> next_id w' = next_id w \<and> clock w' = clock w
     \<and> faults w' = tl (faults w) \<and> calls w' = calls w @ [(Insert_user u b, error_of r)]
     \<and> puchchat_users w' =
         (case r of Inl e \<Rightarrow> puchchat_users w
          | Inr x \<Rightarrow> puchchat_users w @ [\<lparr>u_username = u, u_is_connected = b\<rparr>])
     \<and> (r = Inr () \<longrightarrow> u \<notin> u_username ` set (puchchat_users w))"
  by (auto simp: insert_user_def store_def error_of_def split: list.splits option.splits if_splits)

lemma insert_message_props:
  "insert_message u t w = (r, w') \<Longrightarrow>
     session w' = session w \<and> TOKEN w' = TOKEN w
     \<and> puchchat_users w' = puchchat_users w \<and> clock w' = clock w
     \<and> faults w' = tl (faults w) \<and> calls w' = calls w @ [(Insert_message u t, error_of r)]
     \<and> puchchat w' =
         (case r of Inl e \<Rightarrow> puchchat w
          | Inr x \<Rightarrow> puchchat w @ [\<lparr>m_id = next_id w, m_username = u, m_message = t, m_created_at = clock w\<rparr>])
     \<and> next_id w' = (case r of Inl e \<Rightarrow> next_id w | Inr x \<Rightarrow> next_id w + 1)"
  by (auto simp: insert_message_def store_def error_of_def split: list.splits option.splits if_splits)

lemma filter_other_update:
  "a \<noteq> u \<Longrightarrow> filter (\<lambda>r. u_username r = a) (map (\<lambda>r. if u_username r = u then r\<lparr>u_is_connected := b\<rparr> else r) xs)
     = filter (\<lambda>r. u_username r = a) xs"
  by (induction xs) auto

lemma connect_upsert_frame:
  assumes "a \<noteq> u"
  shows "filter (\<lambda>r. u_username r = a) (puchchat_users (snd (connect_upsert u d w)))
       = filter (\<lambda>r. u_username r = a) (puchchat_users w)"
proof (cases "case d of None \<Rightarrow> False | Some rows \<Rightarrow> 0 < length rows")
  case True
  obtain r w1 where p: "update_users u True w = (r, w1)" by (cases "update_users u True w")
  from update_users_props[OF p] assms True p show ?thesis
    by (auto simp: connect_upsert_def connect_done_def filter_other_update split: sum.splits store_error.splits)
next
  case False
  obtain r w1 where p: "insert_user u True w = (r, w1)" by (cases "insert_user u True w")
  from insert_user_props[OF p] assms False p show ?thesis
    by (auto simp: connect_upsert_def connect_done_def split: sum.splits store_error.splits)
qed

section \<open>Commands that the store serves\<close>

lemma no_faults_tl: "no_faults w \<Longrightarrow> faults w' = tl (faults w) \<Longrightarrow> no_faults w'"
  by (cases "faults w") (auto simp: no_faults_def)

lemma store_served:
  "no_faults w \<Longrightarrow>
   store c exec w =
     (let (r, w') = exec (w\<lparr>faults := tl (faults w)\<rparr>)
      in (r, w'\<lparr>calls := calls w' @ [(c, error_of r)]\<rparr>))"
  by (auto simp: store_def no_faults_def split: list.splits option.splits)

lemma select_users_served:
  "no_faults w \<Longrightarrow>
   fst (select_users u w) = Inr (filter (\<lambda>r. u_username r = u) (puchchat_users w))"
  by (simp add: select_users_def store_served)

lemma select_user_single_served:
  "no_faults w \<Longrightarrow> filter (\<lambda>r. u_username r = u) (puchchat_users w) = [row] \<Longrightarrow>
   fst (select_user_single u w) = Inr row"
  by (simp add: select_user_single_def store_served)

lemma update_users_served: "no_faults w \<Longrightarrow> fst (update_users u b w) = Inr ()"
  by (simp add: update_users_def store_served)

lemma insert_user_served:
  "no_faults w \<Longrightarrow> u \<notin> u_username ` set (puchchat_users w) \<Longrightarrow> fst (insert_user u b w) = Inr ()"
  by (simp add: insert_user_def store_served)


lemma select_messages_gt_served:
  "no_faults w \<Longrightarrow>
   fst (select_messages_gt n w) = Inr (sort_key m_id (filter (\<lambda>m. n < m_id m) (puchchat w)))"
  by (simp add: select_messages_gt_def store_served)


lemma sorted_key_last:
  "sorted (map f xs) \<Longrightarrow> x \<in> set xs \<Longrightarrow> f x \<le> f (last xs)"
  by (induction xs) (auto split: if_splits)

lemma fetch_served:
  assumes tok: "authToken = Some (TOKEN w)"
    and joined: "username (session w) = Some uname" "uname \<noteq> []"
    and row: "filter (\<lambda>r. u_username r = uname) (puchchat_users w) = [row]" "u_is_connected row"
    and ok: "no_faults w"
    and run: "fetch authToken w = (reply, w')"
    and rows: "rows = sort_key m_id (filter (\<lambda>m. last_message_id (session w) < m_id m) (puchchat w))"
  shows "reply = (if rows = [] then no_new_messages else new_messages rows)
       \<and> session w' = (if rows = [] then session w
                        else (session w)\<lparr>last_message_id := m_id (last rows)\<rparr>)
       \<and> TOKEN w' = TOKEN w \<and> puchchat_users w' = puchchat_users w \<and> puchchat w' = puchchat w
       \<and> no_faults w'
       \<and> calls w' = calls w @ [(Select_user_single uname, None),
              (Select_messages_gt (last_message_id (session w)), None)]"
proof -
  obtain r1 w1 where p1: "select_user_single uname w = (r1, w1)"
    by (cases "select_user_single uname w")
  have r1: "r1 = Inr row" using select_user_single_served[OF ok row(1)] p1 by simp
  note f1 = select_user_single_props[OF p1]
  have ok1: "no_faults w1" using no_faults_tl[OF ok] f1 by simp
  define lastId where "lastId = last_message_id (session w)"
  obtain r2 w2 where p2: "select_messages_gt lastId w1 = (r2, w2)"
    by (cases "select_messages_gt lastId w1")
  have r2: "r2 = Inr rows" using select_messages_gt_served[OF ok1, of lastId] p2 f1 rows
    by (simp add: lastId_def)
  note f2 = select_messages_gt_props[OF p2]
  have ok2: "no_faults w2" using no_faults_tl[OF ok1] f2 by simp
  have "fetch authToken w =
     (if rows = [] then (no_new_messages, w2)
      else (new_messages rows, w2\<lparr>session := (session w2)\<lparr>last_message_id := m_id (last rows)\<rparr>\<rparr>))"
    using tok joined row(2) p1 r1 p2 r2 f1
    by (simp add: fetch_def verify_def falsy_def or_zero_def lastId_def last_conv_nth)
  with run show ?thesis using f1 f2 r1 r2 ok2
    by (auto simp: error_of_def lastId_def no_faults_def split: if_splits)
qed




section \<open>Telling the replies apart\<close>

lemma door_not_cross: "disconnected u \<noteq> auth_failed" "disconnected u \<noteq> not_connected"
  "disconnected u \<noteq> disconnect_unexpected m" "disconnected u \<noteq> disconnect_error v m"
  "auth_failed \<noteq> disconnected u" "not_connected \<noteq> disconnected u"
  "disconnect_unexpected m \<noteq> disconnected u" "disconnect_error v m \<noteq> disconnected u"
  by (simp_all add: disconnected_def auth_failed_def not_connected_def disconnect_unexpected_def
      disconnect_error_def door_sign_def cross_mark_def warning_sign_def)

lemma check_not_cross:
  "connected_as u \<noteq> auth_failed" "connected_as u \<noteq> connect_unexpected m"
  "connected_as u \<noteq> connect_fetch_error v m" "connected_as u \<noteq> connect_update_error v m"
  "connected_as u \<noteq> connect_insert_error v m"
  "auth_failed \<noteq> connected_as u" "connect_unexpected m \<noteq> connected_as u"
  "connect_fetch_error v m \<noteq> connected_as u" "connect_update_error v m \<noteq> connected_as u"
  "connect_insert_error v m \<noteq> connected_as u"
  by (simp_all add: connected_as_def auth_failed_def connect_unexpected_def connect_fetch_error_def
      connect_update_error_def connect_insert_error_def check_mark_def cross_mark_def)

lemma connected_as_inj: "connected_as u = connected_as v \<longleftrightarrow> u = v"
  by (simp add: connected_as_def)

section \<open>What connect does\<close>

lemma filter_nonempty_name: "filter (\<lambda>r. u_username r = u) rows \<noteq> [] \<longleftrightarrow> u \<in> u_username ` set rows"
  by (auto simp: filter_empty_conv)

lemma connect_upsert_success:
  assumes run: "connect_upsert u d w = (connected_as x, w')"
    and d: "d = None \<or> d = Some (filter (\<lambda>r. u_username r = u) (puchchat_users w))"
  shows "x = u \<and> session w' = (session w)\<lparr>last_message_id := 0\<rparr>
       \<and> puchchat_users w' = upsertUserConnected u True (puchchat_users w)"
proof (cases "case d of None \<Rightarrow> False | Some rows \<Rightarrow> 0 < length rows")
  case True
  then have mem: "u \<in> u_username ` set (puchchat_users w)"
    using d filter_nonempty_name[of u "puchchat_users w"] by (auto split: option.splits)
  obtain r w1 where p: "update_users u True w = (r, w1)" by (cases "update_users u True w")
  from update_users_props[OF p] run True p mem show ?thesis
    by (auto simp: connect_upsert_def connect_done_def check_not_cross connected_as_inj upsertUserConnected_def
          split: sum.splits store_error.splits)
next
  case False
  obtain r w1 where p: "insert_user u True w = (r, w1)" by (cases "insert_user u True w")
  from insert_user_props[OF p] run False p show ?thesis
    by (auto simp: connect_upsert_def connect_done_def check_not_cross connected_as_inj upsertUserConnected_def
          split: sum.splits store_error.splits)
qed

lemma connect_succeeded:
  assumes "connect username0 authToken w = (connected_as uname, w')"
  shows "uname = toLowerCase (trim username0)
       \<and> session w' = \<lparr>username = Some uname, last_message_id = 0\<rparr>
       \<and> puchchat_users w' = upsertUserConnected uname True (puchchat_users w)"
proof -
  have v: "verify (TOKEN w) authToken \<noteq> None"
    using assms by (auto simp: connect_def check_not_cross split: option.splits)
  define u where "u = toLowerCase (trim username0)"
  define w0 where "w0 = w\<lparr>session := (session w)\<lparr>username := Some u\<rparr>\<rparr>"
  obtain r w1 where p: "select_users u w0 = (r, w1)" by (cases "select_users u w0")
  note f = select_users_props[OF p]
  define d where "d = (case r of Inl e \<Rightarrow> None | Inr rows \<Rightarrow> Some rows)"
  have run: "connect_upsert u d w1 = (connected_as uname, w')"
    using assms v p
    by (auto simp: connect_def Let_def u_def[symmetric] w0_def[symmetric] d_def check_not_cross
          split: option.splits sum.splits store_error.splits if_splits)
  have "r = Inr (filter (\<lambda>r. u_username r = u) (puchchat_users w0)) \<or> (\<exists>e. r = Inl e)"
    using p by (auto simp: select_users_def store_def split: list.splits option.splits)
  then have dd: "d = None \<or> d = Some (filter (\<lambda>r. u_username r = u) (puchchat_users w1))"
    using f by (auto simp: d_def)
  from connect_upsert_success[OF run dd] f show ?thesis
    by (cases "session w") (auto simp: w0_def u_def)
qed

lemma upsert_has_row:
  "\<lparr>u_username = u, u_is_connected = b\<rparr> \<in> set (upsertUserConnected u b rows)"
proof (cases "u \<in> u_username ` set rows")
  case True
  then obtain r where r: "r \<in> set rows" "u_username r = u" by auto
  have "r\<lparr>u_is_connected := b\<rparr> = \<lparr>u_username = u, u_is_connected = b\<rparr>"
    using r(2) by (cases r) simp
  then have "\<lparr>u_username = u, u_is_connected = b\<rparr>
      = (\<lambda>r. if u_username r = u then r\<lparr>u_is_connected := b\<rparr> else r) r"
    using r(2) by simp
  then have "\<lparr>u_username = u, u_is_connected = b\<rparr>
      \<in> (\<lambda>r. if u_username r = u then r\<lparr>u_is_connected := b\<rparr> else r) ` set rows"
    using r(1) by (rule image_eqI)
  then show ?thesis using True by (simp add: upsertUserConnected_def)
next
  case False
  then show ?thesis by (simp add: upsertUserConnected_def)
qed




lemma trim_spaces:
  assumes "list_all is_space s"
  shows "trim s = []"
proof -
  have e: "dropWhile is_space s = []"
    using assms by (simp add: list_all_iff)
  show ?thesis unfolding trim_def e by simp
qed

lemma connect_upsert_served:
  assumes ok: "no_faults w"
  shows "fst (connect_upsert u (Some (filter (\<lambda>r. u_username r = u) (puchchat_users w))) w)
           = connected_as u"
proof (cases "u \<in> u_username ` set (puchchat_users w)")
  case True
  then have ne: "0 < length (filter (\<lambda>r. u_username r = u) (puchchat_users w))"
    using filter_nonempty_name[of u "puchchat_users w"] by simp
  obtain r w1 where p: "update_users u True w = (r, w1)" by (cases "update_users u True w")
  have "r = Inr ()" using update_users_served[OF ok, of u True] p by simp
  then show ?thesis using ne p by (simp add: connect_upsert_def connect_done_def)
next
  case False
  then have e: "filter (\<lambda>r. u_username r = u) (puchchat_users w) = []"
    using filter_nonempty_name[of u "puchchat_users w"] by simp
  obtain r w1 where p: "insert_user u True w = (r, w1)" by (cases "insert_user u True w")
  have "r = Inr ()" using insert_user_served[OF ok False, of True] p by simp
  then show ?thesis using e p by (simp add: connect_upsert_def connect_done_def)
qed

lemma connect_served:
  assumes tok: "authToken = Some (TOKEN w)" and ok: "no_faults w"
  shows "fst (connect username0 authToken w) = connected_as (toLowerCase (trim username0))"
proof -
  define u where "u = toLowerCase (trim username0)"
  define w0 where "w0 = w\<lparr>session := (session w)\<lparr>username := Some u\<rparr>\<rparr>"
  have ok0: "no_faults w0" using ok by (simp add: w0_def no_faults_def)
  obtain r w1 where p: "select_users u w0 = (r, w1)" by (cases "select_users u w0")
  note f = select_users_props[OF p]
  have r: "r = Inr (filter (\<lambda>r. u_username r = u) (puchchat_users w1))"
    using select_users_served[OF ok0, of u] p f by simp
  have ok1: "no_faults w1" using no_faults_tl[OF ok0] f by simp
  show ?thesis
    using tok p r connect_upsert_served[OF ok1, of u]
    by (simp add: connect_def verify_def Let_def u_def[symmetric] w0_def[symmetric])
qed

lemma connect_sets_username:
  assumes tok: "authToken = Some (TOKEN w)"
  shows "username (session (snd (connect username0 authToken w))) = Some (toLowerCase (trim username0))"
proof -
  define u where "u = toLowerCase (trim username0)"
  define w0 where "w0 = w\<lparr>session := (session w)\<lparr>username := Some u\<rparr>\<rparr>"
  obtain r w1 where p: "select_users u w0 = (r, w1)" by (cases "select_users u w0")
  note f = select_users_props[OF p]
  have up: "username (session (snd (connect_upsert u d w1))) = Some u" for d
  proof -
    obtain r2 w2 where p2: "update_users u True w1 = (r2, w2)" by (cases "update_users u True w1")
    obtain r3 w3 where p3: "insert_user u True w1 = (r3, w3)" by (cases "insert_user u True w1")
    show ?thesis
      using update_users_props[OF p2] insert_user_props[OF p3] p2 p3 f
      by (auto simp: connect_upsert_def connect_done_def w0_def split: sum.splits store_error.splits)
  qed
  have s1: "username (session w1) = Some u" using f by (simp add: w0_def)
  show ?thesis
    using tok p s1 up
    by (auto simp: connect_def verify_def Let_def u_def[symmetric] w0_def[symmetric]
          split: sum.splits store_error.splits)
qed

section \<open>Commands that meet a store failure\<close>

lemma calls_of_app: "calls w' = calls w @ cs \<Longrightarrow> calls_of w w' = cs"
  by (simp add: calls_of_def)

lemma send_failure:
  assumes run: "send message authToken w = (reply, w')" and failed: "store_failed w w'"
  shows "session w' = session w
       \<and> (\<exists>c e. last (calls_of w w') = (c, Some e)
            \<and> reply = (case e of
                 Thrown msg \<Rightarrow> send_unexpected msg
               | Returned code msg \<Rightarrow>
                   (case c of Insert_message u t \<Rightarrow> send_error msg | _ \<Rightarrow> use_connect_first)))"
proof -
  have v: "verify (TOKEN w) authToken \<noteq> None"
    using run failed by (auto simp: send_def store_failed_def calls_of_def split: option.splits)
  have j: "\<not> falsy (username (session w))"
    using run failed v by (auto simp: send_def store_failed_def calls_of_def split: option.splits if_splits)
  define u where "u = the (username (session w))"
  obtain r1 w1 where p1: "select_user_single u w = (r1, w1)" by (cases "select_user_single u w")
  note f1 = select_user_single_props[OF p1]
  have c1: "calls_of w w1 = [(Select_user_single u, error_of r1)]"
    using f1 by (simp add: calls_of_app)
  show ?thesis
  proof (cases r1)
    case (Inl e)
    then have "send message authToken w =
       ((case e of Thrown msg \<Rightarrow> send_unexpected msg | Returned code msg \<Rightarrow> use_connect_first), w1)"
      using v j p1 by (auto simp: send_def Let_def u_def[symmetric] split: option.splits store_error.splits)
    with run have "w' = w1" "reply = (case e of Thrown msg \<Rightarrow> send_unexpected msg | Returned code msg \<Rightarrow> use_connect_first)"
      by simp_all
    then show ?thesis using f1 c1 Inl by (auto simp: error_of_def split: store_error.splits)
  next
    case (Inr row)
    show ?thesis
    proof (cases "u_is_connected row")
      case False
      then have "send message authToken w = (use_connect_first, w1)"
        using v j p1 Inr by (auto simp: send_def Let_def u_def[symmetric] split: option.splits)
      with run have "w' = w1" by simp
      then have False using failed c1 Inr by (simp add: store_failed_def error_of_def)
      then show ?thesis ..
    next
      case True
      obtain r2 w2 where p2: "insert_message u (trim message) w1 = (r2, w2)"
        by (cases "insert_message u (trim message) w1")
      note f2 = insert_message_props[OF p2]
      have c2: "calls_of w w2 = [(Select_user_single u, None), (Insert_message u (trim message), error_of r2)]"
        using f1 f2 Inr by (simp add: calls_of_app error_of_def)
      have s: "send message authToken w =
          ((case r2 of Inl (Thrown msg) \<Rightarrow> send_unexpected msg | Inl (Returned code msg) \<Rightarrow> send_error msg
             | Inr x \<Rightarrow> message_sent (trim message)), w2)"
        using v j p1 Inr True p2
        by (auto simp: send_def Let_def u_def[symmetric] split: option.splits sum.splits store_error.splits)
      show ?thesis
      proof (cases r2)
        case (Inl e)
        with s run have "w' = w2" "reply = (case e of Thrown msg \<Rightarrow> send_unexpected msg | Returned code msg \<Rightarrow> send_error msg)"
          by (auto split: store_error.splits)
        then show ?thesis using f1 f2 c2 Inl by (auto simp: error_of_def split: store_error.splits)
      next
        case (Inr x)
        with s run have "w' = w2" by simp
        then have False using failed c2 Inr by (simp add: store_failed_def error_of_def)
        then show ?thesis ..
      qed
    qed
  qed
qed


lemma fetch_failure:
  assumes run: "fetch authToken w = (reply, w')" and failed: "store_failed w w'"
  shows "session w' = session w
       \<and> (\<exists>c e. last (calls_of w w') = (c, Some e)
            \<and> reply = (case e of
                 Thrown msg \<Rightarrow> fetch_unexpected msg
               | Returned code msg \<Rightarrow>
                   (case c of Select_messages_gt n \<Rightarrow> fetch_error msg | _ \<Rightarrow> use_connect_first)))"
proof -
  have v: "verify (TOKEN w) authToken \<noteq> None"
    using run failed by (auto simp: fetch_def store_failed_def calls_of_def split: option.splits)
  have j: "\<not> falsy (username (session w))"
    using run failed v by (auto simp: fetch_def store_failed_def calls_of_def split: option.splits if_splits)
  define u where "u = the (username (session w))"
  obtain r1 w1 where p1: "select_user_single u w = (r1, w1)" by (cases "select_user_single u w")
  note f1 = select_user_single_props[OF p1]
  have c1: "calls_of w w1 = [(Select_user_single u, error_of r1)]"
    using f1 by (simp add: calls_of_app)
  show ?thesis
  proof (cases r1)
    case (Inl e)
    then have "fetch authToken w =
       ((case e of Thrown msg \<Rightarrow> fetch_unexpected msg | Returned code msg \<Rightarrow> use_connect_first), w1)"
      using v j p1 by (auto simp: fetch_def Let_def u_def[symmetric] split: option.splits store_error.splits)
    with run have "w' = w1" "reply = (case e of Thrown msg \<Rightarrow> fetch_unexpected msg | Returned code msg \<Rightarrow> use_connect_first)"
      by simp_all
    then show ?thesis using f1 c1 Inl by (auto simp: error_of_def split: store_error.splits)
  next
    case (Inr row)
    show ?thesis
    proof (cases "u_is_connected row")
      case False
      then have "fetch authToken w = (use_connect_first, w1)"
        using v j p1 Inr by (auto simp: fetch_def Let_def u_def[symmetric] split: option.splits)
      with run have "w' = w1" by simp
      then have False using failed c1 Inr by (simp add: store_failed_def error_of_def)
      then show ?thesis ..
    next
      case True
      define lastId where "lastId = or_zero (last_message_id (session w1))"
      obtain r2 w2 where p2: "select_messages_gt lastId w1 = (r2, w2)"
        by (cases "select_messages_gt lastId w1")
      note f2 = select_messages_gt_props[OF p2]
      have c2: "calls w2 = calls w @ [(Select_user_single u, None), (Select_messages_gt lastId, error_of r2)]"
        using f1 f2 Inr by (simp add: error_of_def)
      show ?thesis
      proof (cases r2)
        case (Inl e)
        then have "fetch authToken w =
          ((case e of Thrown msg \<Rightarrow> fetch_unexpected msg | Returned code msg \<Rightarrow> fetch_error msg), w2)"
          using v j p1 Inr True p2
          by (auto simp: fetch_def Let_def u_def[symmetric] lastId_def[symmetric]
              split: option.splits store_error.splits)
        with run have "w' = w2" "reply = (case e of Thrown msg \<Rightarrow> fetch_unexpected msg | Returned code msg \<Rightarrow> fetch_error msg)"
          by simp_all
        then show ?thesis using f1 f2 c2 Inl
          by (auto simp: error_of_def calls_of_app split: store_error.splits)
      next
        case r2: (Inr rows)
        then have "calls w' = calls w2"
          using v j p1 Inr True p2 run
          by (auto simp: fetch_def Let_def u_def[symmetric] lastId_def[symmetric]
              split: option.splits if_splits)
        then have "calls_of w w' = [(Select_user_single u, None), (Select_messages_gt lastId, None)]"
          using c2 r2 by (simp add: calls_of_app error_of_def)
        then have False using failed by (simp add: store_failed_def)
        then show ?thesis ..
      qed
    qed
  qed
qed

lemma disconnect_failure:
  assumes run: "disconnect authToken w = (reply, w')" and failed: "store_failed w w'"
  shows "session w' = session w
       \<and> (\<exists>c e. last (calls_of w w') = (c, Some e)
            \<and> reply = (case e of
                 Thrown msg \<Rightarrow> disconnect_unexpected msg
               | Returned code msg \<Rightarrow> disconnect_error (the (username (session w))) msg))"
proof -
  have v: "verify (TOKEN w) authToken \<noteq> None"
    using run failed by (auto simp: disconnect_def store_failed_def calls_of_def split: option.splits)
  have j: "\<not> falsy (username (session w))"
    using run failed v by (auto simp: disconnect_def store_failed_def calls_of_def split: option.splits if_splits)
  define u where "u = the (username (session w))"
  obtain r1 w1 where p1: "update_users u False w = (r1, w1)" by (cases "update_users u False w")
  note f1 = update_users_props[OF p1]
  have c1: "calls w1 = calls w @ [(Update_users u False, error_of r1)]"
    using f1 by simp
  show ?thesis
  proof (cases r1)
    case (Inl e)
    then have "disconnect authToken w =
       ((case e of Thrown msg \<Rightarrow> disconnect_unexpected msg | Returned code msg \<Rightarrow> disconnect_error u msg), w1)"
      using v j p1 by (auto simp: disconnect_def Let_def u_def[symmetric] split: option.splits store_error.splits)
    with run have "w' = w1" "reply = (case e of Thrown msg \<Rightarrow> disconnect_unexpected msg | Returned code msg \<Rightarrow> disconnect_error u msg)"
      by simp_all
    then show ?thesis using f1 c1 Inl by (auto simp: error_of_def calls_of_app u_def split: store_error.splits)
  next
    case (Inr x)
    then have "calls w' = calls w1"
      using v j p1 run by (auto simp: disconnect_def Let_def u_def[symmetric] split: option.splits)
    then have "calls_of w w' = [(Update_users u False, None)]"
      using c1 Inr by (simp add: calls_of_app error_of_def)
    then have False using failed by (simp add: store_failed_def)
    then show ?thesis ..
  qed
qed

lemma connect_upsert_trace:
  assumes run: "connect_upsert u d w = (reply, w')"
  shows "(\<exists>c e. calls w' = calls w @ [(c, Some e)] \<and> session w' = session w
            \<and> (c = Update_users u True \<or> c = Insert_user u True)
            \<and> reply = (case e of
                 Thrown msg \<Rightarrow> connect_unexpected msg
               | Returned code msg \<Rightarrow>
                   (case c of Update_users n b \<Rightarrow> connect_update_error n msg
                    | Insert_user n b \<Rightarrow> connect_insert_error n msg
                    | _ \<Rightarrow> [])))
       \<or> (\<exists>c. calls w' = calls w @ [(c, None)])"
proof (cases "case d of None \<Rightarrow> False | Some rows \<Rightarrow> 0 < length rows")
  case True
  obtain r w1 where p: "update_users u True w = (r, w1)" by (cases "update_users u True w")
  note f = update_users_props[OF p]
  show ?thesis
  proof (cases r)
    case (Inl e)
    then have "connect_upsert u d w =
       ((case e of Thrown msg \<Rightarrow> connect_unexpected msg | Returned code msg \<Rightarrow> connect_update_error u msg), w1)"
      using True p by (auto simp: connect_upsert_def split: store_error.splits)
    with run have "w' = w1" "reply = (case e of Thrown msg \<Rightarrow> connect_unexpected msg | Returned code msg \<Rightarrow> connect_update_error u msg)"
      by simp_all
    then show ?thesis using f Inl by (auto simp: error_of_def split: store_error.splits)
  next
    case (Inr x)
    then have "calls w' = calls w1"
      using True p run by (auto simp: connect_upsert_def connect_done_def)
    then show ?thesis using f Inr by (simp add: error_of_def)
  qed
next
  case False
  obtain r w1 where p: "insert_user u True w = (r, w1)" by (cases "insert_user u True w")
  note f = insert_user_props[OF p]
  show ?thesis
  proof (cases r)
    case (Inl e)
    then have "connect_upsert u d w =
       ((case e of Thrown msg \<Rightarrow> connect_unexpected msg | Returned code msg \<Rightarrow> connect_insert_error u msg), w1)"
      using False p by (auto simp: connect_upsert_def split: store_error.splits)
    with run have "w' = w1" "reply = (case e of Thrown msg \<Rightarrow> connect_unexpected msg | Returned code msg \<Rightarrow> connect_insert_error u msg)"
      by simp_all
    then show ?thesis using f Inl by (auto simp: error_of_def split: store_error.splits)
  next
    case (Inr x)
    then have "calls w' = calls w1"
      using False p run by (auto simp: connect_upsert_def connect_done_def)
    then show ?thesis using f Inr by (simp add: error_of_def)
  qed
qed

lemma connect_failure:
  assumes run: "connect username0 authToken w = (reply, w')" and failed: "connect_store_failed w w'"
  shows "last_message_id (session w') = last_message_id (session w)
       \<and> (\<exists>c e. last (calls_of w w') = (c, Some e)
            \<and> reply = (case e of
                 Thrown msg \<Rightarrow> connect_unexpected msg
               | Returned code msg \<Rightarrow>
                   (case c of Select_users n \<Rightarrow> connect_fetch_error n msg
                    | Update_users n b \<Rightarrow> connect_update_error n msg
                    | Insert_user n b \<Rightarrow> connect_insert_error n msg
                    | _ \<Rightarrow> [])))"
proof -
  have v: "verify (TOKEN w) authToken \<noteq> None"
    using run failed by (auto simp: connect_def connect_store_failed_def calls_of_def split: option.splits)
  define u where "u = toLowerCase (trim username0)"
  define w0 where "w0 = w\<lparr>session := (session w)\<lparr>username := Some u\<rparr>\<rparr>"
  obtain r1 w1 where p1: "select_users u w0 = (r1, w1)" by (cases "select_users u w0")
  note f1 = select_users_props[OF p1]
  have c1: "calls w1 = calls w @ [(Select_users u, error_of r1)]"
    using f1 by (simp add: w0_def)
  have l1: "last_message_id (session w1) = last_message_id (session w)"
    using f1 by (simp add: w0_def)
  have stop: ?thesis
    if "r1 = Inl e" "reply = (case e of Thrown msg \<Rightarrow> connect_unexpected msg
          | Returned code msg \<Rightarrow> connect_fetch_error u msg)" "w' = w1" for e
    using that c1 l1 by (auto simp: calls_of_app error_of_def split: store_error.splits)
  have continue: ?thesis
    if up: "connect_upsert u d w1 = (reply, w')" and nf: "\<not> lookup_not_found (Select_users u, error_of r1) \<Longrightarrow> error_of r1 = None" for d
  proof -
    from connect_upsert_trace[OF up] show ?thesis
    proof
      assume "\<exists>c e. calls w' = calls w1 @ [(c, Some e)] \<and> session w' = session w1
            \<and> (c = Update_users u True \<or> c = Insert_user u True)
            \<and> reply = (case e of
                 Thrown msg \<Rightarrow> connect_unexpected msg
               | Returned code msg \<Rightarrow>
                   (case c of Update_users n b \<Rightarrow> connect_update_error n msg
                    | Insert_user n b \<Rightarrow> connect_insert_error n msg
                    | _ \<Rightarrow> []))"
      then obtain c e where ce: "calls w' = calls w1 @ [(c, Some e)]" "session w' = session w1"
          "c = Update_users u True \<or> c = Insert_user u True"
          "reply = (case e of
                 Thrown msg \<Rightarrow> connect_unexpected msg
               | Returned code msg \<Rightarrow>
                   (case c of Update_users n b \<Rightarrow> connect_update_error n msg
                    | Insert_user n b \<Rightarrow> connect_insert_error n msg
                    | _ \<Rightarrow> []))" by blast
      have "calls_of w w' = [(Select_users u, error_of r1), (c, Some e)]"
        using ce(1) c1 by (simp add: calls_of_app)
      then have "last (calls_of w w') = (c, Some e)" by simp
      moreover have "reply = (case e of
                 Thrown msg \<Rightarrow> connect_unexpected msg
               | Returned code msg \<Rightarrow>
                   (case c of Select_users n \<Rightarrow> connect_fetch_error n msg
                    | Update_users n b \<Rightarrow> connect_update_error n msg
                    | Insert_user n b \<Rightarrow> connect_insert_error n msg
                    | _ \<Rightarrow> []))"
        using ce(3,4) by (auto split: store_error.splits)
      ultimately show ?thesis using ce(2) l1 by auto
    next
      assume "\<exists>c. calls w' = calls w1 @ [(c, None)]"
      then obtain c where "calls w' = calls w1 @ [(c, None)]" by blast
      then have "calls_of w w' = [(Select_users u, error_of r1), (c, None)]"
        using c1 by (simp add: calls_of_app)
      then have False using failed nf by (auto simp: connect_store_failed_def)
      then show ?thesis ..
    qed
  qed
  show ?thesis
  proof (cases r1)
    case (Inl e)
    show ?thesis
    proof (cases e)
      case (Thrown msg)
      then have "connect username0 authToken w = (connect_unexpected msg, w1)"
        using v p1 Inl by (auto simp: connect_def Let_def u_def[symmetric] w0_def[symmetric])
      with run show ?thesis using stop[OF Inl] Thrown by simp
    next
      case (Returned code msg)
      show ?thesis
      proof (cases "code = ''PGRST116''")
        case False
        then have "connect username0 authToken w = (connect_fetch_error u msg, w1)"
          using v p1 Inl Returned by (auto simp: connect_def Let_def u_def[symmetric] w0_def[symmetric])
        with run show ?thesis using stop[OF Inl] Returned by simp
      next
        case True
        then have "connect username0 authToken w = connect_upsert u None w1"
          using v p1 Inl Returned by (auto simp: connect_def Let_def u_def[symmetric] w0_def[symmetric])
        with run have up: "connect_upsert u None w1 = (reply, w')" by simp
        show ?thesis
          using continue[OF up] Inl Returned True by (simp add: lookup_not_found_def error_of_def)
      qed
    qed
  next
    case (Inr rows)
    then have "connect username0 authToken w = connect_upsert u (Some rows) w1"
      using v p1 by (auto simp: connect_def Let_def u_def[symmetric] w0_def[symmetric])
    with run have up: "connect_upsert u (Some rows) w1 = (reply, w')" by simp
    show ?thesis using continue[OF up] Inr by (simp add: error_of_def)
  qed
qed

section \<open>What the listener does\<close>

lemma on_status_timers:
  "timers (on_status st l) = (if st = CLOSED then timers l @ [5000] else timers l)"
  by (cases st) (simp_all add: on_status_def)

lemma on_status_rest:
  "realtimeChannel (on_status st l) = realtimeChannel l \<and> created (on_status st l) = created l
   \<and> unsubscribed (on_status st l) = unsubscribed l \<and> exited (on_status st l) = exited l"
  by (cases st) (simp_all add: on_status_def)

lemma on_status_presence_rest:
  "realtimeChannel (on_status_presence st sess l) = realtimeChannel l
   \<and> created (on_status_presence st sess l) = created l
   \<and> timers (on_status_presence st sess l) = timers l
   \<and> unsubscribed (on_status_presence st sess l) = unsubscribed l
   \<and> exited (on_status_presence st sess l) = exited l"
  by (simp add: on_status_presence_def split: option.splits)

lemma start_rest:
  "unsubscribed (startRealtimeListener failure l) = unsubscribed l
   \<and> exited (startRealtimeListener failure l) = exited l"
  by (simp add: startRealtimeListener_def split: option.splits start_failure.splits)

lemma step_keeps:
  "e \<noteq> Sigint \<Longrightarrow> unsubscribed (step sess e l) = unsubscribed l \<and> exited (step sess e l) = exited l"
  by (cases e) (simp_all add: step_def on_status_rest on_status_presence_rest start_rest split: list.splits)

lemma run_keeps:
  "Sigint \<notin> set es \<Longrightarrow>
   unsubscribed (run sess es l) = unsubscribed l \<and> exited (run sess es l) = exited l"
proof (induction es arbitrary: l)
  case Nil
  then show ?case by simp
next
  case (Cons e es)
  then have "e \<noteq> Sigint" "Sigint \<notin> set es" by auto
  then show ?case using Cons.IH[of "step sess e l"] step_keeps[of e sess l] by simp
qed

lemma closed_restart:
  assumes "\<not> exited l" and "timers l = []"
  shows "run sess [Status CLOSED, Timer_fires None] l
       = l\<lparr>realtimeChannel := Some (created l), created := created l + 1\<rparr>"
  using assms
  by (simp add: step_def on_status_def on_status_presence_def startRealtimeListener_def)

lemma run_append: "run sess (es @ fs) l = run sess fs (run sess es l)"
  by (induction es arbitrary: l) simp_all

lemma closed_restart_many:
  assumes "\<not> exited l" and "timers l = []"
  shows "run sess (concat (replicate n [Status CLOSED, Timer_fires None])) l
       = (if n = 0 then l
          else l\<lparr>realtimeChannel := Some (created l + n - 1), created := created l + n\<rparr>)"
  using assms
proof (induction n arbitrary: l)
  case 0
  then show ?case by simp
next
  case (Suc n)
  define l1 where "l1 = l\<lparr>realtimeChannel := Some (created l), created := created l + 1\<rparr>"
  have one: "run sess [Status CLOSED, Timer_fires None] l = l1"
    using closed_restart[OF Suc.prems] by (simp add: l1_def)
  have l1: "\<not> exited l1" "timers l1 = []" using Suc.prems by (simp_all add: l1_def)
  have "concat (replicate (Suc n) [Status CLOSED, Timer_fires None])
      = [Status CLOSED, Timer_fires None] @ concat (replicate n [Status CLOSED, Timer_fires None])"
    by simp
  then have "run sess (concat (replicate (Suc n) [Status CLOSED, Timer_fires None])) l
      = run sess (concat (replicate n [Status CLOSED, Timer_fires None]))
          (run sess [Status CLOSED, Timer_fires None] l)"
    by (simp only: run_append)
  then have "run sess (concat (replicate (Suc n) [Status CLOSED, Timer_fires None])) l
      = run sess (concat (replicate n [Status CLOSED, Timer_fires None])) l1"
    by (simp only: one)
  then show ?case using Suc.IH[OF l1] by (simp add: l1_def)
qed

section \<open>Posting and draining\<close>



text \<open>
  C6. For every cursor and every content of the message table: when \<open>fetch\<close> is called
  twice in a row by a joined, store-verified connected session (right credential, store
  serving the calls), with nothing inserted in between, the second call returns the
  no-new-messages reply and leaves the session as the first call left it, because after
  the first call no row of the table has an id above the cursor.
\<close>

theorem second_drain_has_no_new_messages:
  assumes "authToken = Some (TOKEN w)"
    and "username (session w) = Some uname" and "uname \<noteq> []"
    and "filter (\<lambda>r. u_username r = uname) (puchchat_users w) = [row]" and "u_is_connected row"
    and "no_faults w"
    and "fetch authToken w = (out1, w1)"
    and "fetch authToken w1 = (out2, w2)"
  shows "out2 = no_new_messages
       \<and> (\<forall>m \<in> set (puchchat w). m_id m \<le> last_message_id (session w1))
       \<and> session w2 = session w1"
proof -
  define rows where
    "rows = sort_key m_id (filter (\<lambda>m. last_message_id (session w) < m_id m) (puchchat w))"
  note a = fetch_served[OF assms(1-7) rows_def]
  have srt: "sorted (map m_id rows)" by (simp add: rows_def)
  have bound: "m_id m \<le> last_message_id (session w1)" if "m \<in> set (puchchat w)" for m
  proof (cases "last_message_id (session w) < m_id m")
    case True
    then have "m \<in> set rows" using that by (simp add: rows_def)
    then have "rows \<noteq> []" "m_id m \<le> m_id (last rows)"
      using sorted_key_last[OF srt] by auto
    then show ?thesis using a by simp
  next
    case False
    have "last_message_id (session w) \<le> last_message_id (session w1)"
    proof (cases "rows = []")
      case True then show ?thesis using a by simp
    next
      case False
      then have "last rows \<in> set rows" by simp
      then have "last_message_id (session w) < m_id (last rows)" by (simp add: rows_def)
      then show ?thesis using a False by simp
    qed
    with False show ?thesis by simp
  qed
  define rows2 where
    "rows2 = sort_key m_id (filter (\<lambda>m. last_message_id (session w1) < m_id m) (puchchat w1))"
  have pw: "puchchat w1 = puchchat w" using a by simp
  have "filter (\<lambda>m. last_message_id (session w1) < m_id m) (puchchat w) = []"
    using bound by (fastforce simp: filter_empty_conv)
  then have e: "rows2 = []" by (simp add: rows2_def pw)
  have tok1: "authToken = Some (TOKEN w1)" using assms(1) a by simp
  have j1: "username (session w1) = Some uname" using assms(2) a by (simp split: if_splits)
  have r1: "filter (\<lambda>r. u_username r = uname) (puchchat_users w1) = [row]" using assms(4) a by simp
  have ok1: "no_faults w1" using a by simp
  note b = fetch_served[OF tok1 j1 assms(3) r1 assms(5) ok1 assms(8) rows2_def]
  show ?thesis using b e bound by simp
qed

theorem second_drain_has_no_new_messages_witness:
  "Some ''s3cret'' = Some (TOKEN alice_world)
   \<and> username (session alice_world) = Some ''alice'' \<and> ''alice'' \<noteq> []
   \<and> filter (\<lambda>r. u_username r = ''alice'') (puchchat_users alice_world)
       = [\<lparr>u_username = ''alice'', u_is_connected = True\<rparr>]
   \<and> u_is_connected \<lparr>u_username = ''alice'', u_is_connected = True\<rparr>
   \<and> no_faults alice_world
   \<and> fst (fetch (Some ''s3cret'') (snd (fetch (Some ''s3cret'') alice_world))) = no_new_messages
   \<and> session (snd (fetch (Some ''s3cret'') (snd (fetch (Some ''s3cret'') alice_world))))
       = session (snd (fetch (Some ''s3cret'') alice_world))"
proof -
  have h1: "Some ''s3cret'' = Some (TOKEN alice_world)" by (simp add: alice_world_def)
  have h2: "username (session alice_world) = Some ''alice''" by (simp add: alice_world_def)
  have h3: "''alice'' \<noteq> []" by simp
  have h4: "filter (\<lambda>r. u_username r = ''alice'') (puchchat_users alice_world)
       = [\<lparr>u_username = ''alice'', u_is_connected = True\<rparr>]" by (simp add: alice_world_def)
  have h5: "u_is_connected \<lparr>u_username = ''alice'', u_is_connected = True\<rparr>" by simp
  have h6: "no_faults alice_world" by (simp add: alice_world_def no_faults_def)
  note c = second_drain_has_no_new_messages [OF h1 h2 h3 h4 h5 h6 surjective_pairing surjective_pairing]
  from h1 h2 h3 h4 h5 h6 c show ?thesis by blast
qed

text \<open>
  C7. When \<open>disconnect\<close> has succeeded, that is, has returned its confirmation for the
  user who was joined, a \<open>send\<close> right after it with the same credential returns the
  warning that one must connect first, a warning and not an error reply, and changes
  nothing: no store call is made and the message table still holds the rows it held
  before the two commands.
\<close>

theorem post_after_leave_is_turned_away:
  assumes "disconnect authToken w = (disconnected uname, w1)"
  shows "send message authToken w1 = (must_connect_send, w1)
       \<and> puchchat (snd (send message authToken w1)) = puchchat w
       \<and> session w1 = \<lparr>username = None, last_message_id = 0\<rparr>"
proof -
  have v: "verify (TOKEN w) authToken \<noteq> None"
    using assms by (auto simp: disconnect_def door_not_cross split: option.splits)
  have j: "\<not> falsy (username (session w))"
    using assms v by (auto simp: disconnect_def door_not_cross split: option.splits if_splits)
  define u where "u = the (username (session w))"
  obtain r w' where p: "update_users u False w = (r, w')" by (cases "update_users u False w")
  note f = update_users_props[OF p]
  have w1: "w1 = w'\<lparr>session := (session w')\<lparr>username := None, last_message_id := 0\<rparr>\<rparr>"
    using assms v j p
    by (auto simp: disconnect_def Let_def u_def[symmetric] door_not_cross
          split: option.splits sum.splits store_error.splits)
  have s: "send message authToken w1 = (must_connect_send, w1)"
    using v f by (auto simp: w1 send_def falsy_def split: option.splits)
  show ?thesis using s f by (simp add: w1)
qed

theorem post_after_leave_is_turned_away_witness:
  "disconnect (Some ''s3cret'') alice_world
     = (disconnected ''alice'', snd (disconnect (Some ''s3cret'') alice_world))
   \<and> send ''x'' (Some ''s3cret'') (snd (disconnect (Some ''s3cret'') alice_world))
     = (must_connect_send, snd (disconnect (Some ''s3cret'') alice_world))
   \<and> puchchat (snd (send ''x'' (Some ''s3cret'') (snd (disconnect (Some ''s3cret'') alice_world))))
     = puchchat alice_world"
proof -
  have "fst (disconnect (Some ''s3cret'') alice_world) = disconnected ''alice''"
    by (simp add: disconnect_def verify_def alice_world_def falsy_def update_users_def store_def
        error_of_def Let_def)
  then have h: "disconnect (Some ''s3cret'') alice_world
     = (disconnected ''alice'', snd (disconnect (Some ''s3cret'') alice_world))"
    by (simp add: prod_eq_iff)
  note c = post_after_leave_is_turned_away [OF h, of "''x''"]
  from h c show ?thesis by blast
qed

section \<open>Joining\<close>


lemma norm_Alice: "toLowerCase (trim ''Alice'') = ''alice''"
  by (simp add: toLowerCase_def trim_def is_space_def lower_char_def)


text \<open>
  C9. A \<open>connect\<close> for a name that normalizes to something other than \<open>a\<close> leaves the
  rows of user \<open>a\<close> exactly as they were, whatever the credential and whatever the store
  does: when \<open>a\<close> is the user who was joined before, the row of \<open>a\<close> keeps its
  \<open>is_connected\<close> flag, so joining as someone else never clears the presence of the
  previous identity.
\<close>

theorem join_leaves_other_user_rows:
  assumes "toLowerCase (trim other) \<noteq> a"
  shows "filter (\<lambda>r. u_username r = a) (puchchat_users (snd (connect other authToken w)))
       = filter (\<lambda>r. u_username r = a) (puchchat_users w)"
proof (cases "verify (TOKEN w) authToken")
  case None
  then show ?thesis by (simp add: connect_def)
next
  case (Some info)
  define u where "u = toLowerCase (trim other)"
  define w0 where "w0 = w\<lparr>session := (session w)\<lparr>username := Some u\<rparr>\<rparr>"
  obtain r w1 where p: "select_users u w0 = (r, w1)" by (cases "select_users u w0")
  have u1: "puchchat_users w1 = puchchat_users w"
    using select_users_props[OF p] by (simp add: w0_def)
  have au: "a \<noteq> u" using assms by (auto simp: u_def)
  show ?thesis
    using Some p u1 connect_upsert_frame[OF au, of _ w1]
    by (auto simp: connect_def Let_def u_def[symmetric] w0_def[symmetric] split: sum.splits store_error.splits)
qed

theorem join_leaves_other_user_rows_witness:
  "toLowerCase (trim ''Carol'') \<noteq> ''alice''
   \<and> filter (\<lambda>r. u_username r = ''alice'')
        (puchchat_users (snd (connect ''Carol'' (Some ''s3cret'') alice_world)))
     = [\<lparr>u_username = ''alice'', u_is_connected = True\<rparr>]"
proof -
  have h: "toLowerCase (trim ''Carol'') \<noteq> ''alice''"
    by (simp add: toLowerCase_def trim_def is_space_def lower_char_def)
  have "filter (\<lambda>r. u_username r = ''alice'') (puchchat_users alice_world)
      = [\<lparr>u_username = ''alice'', u_is_connected = True\<rparr>]"
    by (simp add: alice_world_def)
  with h join_leaves_other_user_rows [OF h, of "Some ''s3cret''" alice_world]
  show ?thesis by simp
qed

text \<open>
  C10. For an input made of white space only, \<open>connect\<close> with the right credential
  normalizes the name to the empty string and puts the empty string into the session as
  the username (before any store call, so whatever the store does); when the store
  serves the calls the reply is the confirmation for the empty name, and the user table
  has the empty name upserted as connected, so a row with the empty username and
  \<open>is_connected = true\<close> is there.
\<close>

theorem blank_username_joins_as_empty:
  assumes "list_all is_space username0" and "authToken = Some (TOKEN w)"
    and "connect username0 authToken w = (reply, w')"
  shows "toLowerCase (trim username0) = []
       \<and> username (session w') = Some []
       \<and> (no_faults w \<longrightarrow>
            reply = connected_as []
            \<and> puchchat_users w' = upsertUserConnected [] True (puchchat_users w)
            \<and> \<lparr>u_username = [], u_is_connected = True\<rparr> \<in> set (puchchat_users w'))"
proof -
  have n: "toLowerCase (trim username0) = []"
    using trim_spaces[OF assms(1)] by (simp add: toLowerCase_def)
  have s: "username (session w') = Some []"
    using connect_sets_username[OF assms(2), of username0] assms(3) n by simp
  have "reply = connected_as []
            \<and> puchchat_users w' = upsertUserConnected [] True (puchchat_users w)
            \<and> \<lparr>u_username = [], u_is_connected = True\<rparr> \<in> set (puchchat_users w')"
    if ok: "no_faults w"
  proof -
    have r: "reply = connected_as []"
      using connect_served[OF assms(2) ok, of username0] assms(3) n by simp
    with assms(3) have "connect username0 authToken w = (connected_as [], w')" by simp
    from connect_succeeded[OF this] r upsert_has_row[of "[]" True "puchchat_users w"]
    show ?thesis by simp
  qed
  with n s show ?thesis by blast
qed

theorem blank_username_joins_as_empty_witness:
  "list_all is_space [CHR '' '', CHR 0x09, CHR '' '']
   \<and> Some ''s3cret'' = Some (TOKEN fresh_world)
   \<and> no_faults fresh_world
   \<and> toLowerCase (trim [CHR '' '', CHR 0x09, CHR '' '']) = []
   \<and> username (session (snd (connect [CHR '' '', CHR 0x09, CHR '' ''] (Some ''s3cret'') fresh_world)))
       = Some []
   \<and> fst (connect [CHR '' '', CHR 0x09, CHR '' ''] (Some ''s3cret'') fresh_world) = connected_as []
   \<and> \<lparr>u_username = [], u_is_connected = True\<rparr>
       \<in> set (puchchat_users (snd (connect [CHR '' '', CHR 0x09, CHR '' ''] (Some ''s3cret'') fresh_world)))"
proof -
  have h1: "list_all is_space [CHR '' '', CHR 0x09, CHR '' '']" by (simp add: is_space_def)
  have h2: "Some ''s3cret'' = Some (TOKEN fresh_world)" by (simp add: fresh_world_def)
  have h3: "no_faults fresh_world" by (simp add: fresh_world_def no_faults_def)
  note c = blank_username_joins_as_empty [OF h1 h2 surjective_pairing]
  from h1 h2 h3 c show ?thesis by blast
qed

section \<open>Posting a blank text\<close>




section \<open>Store failures\<close>

text \<open>
  C2, as the code has it. Whenever a store call made by \<open>disconnect\<close>, \<open>send\<close> or
  \<open>fetch\<close> returns an error or throws, the failing call is the last store call of the
  command, the session is exactly as before, and the reply is: for a call that threw, the
  unexpected-error reply with the exception's message; for a returned error of
  \<open>disconnect\<close>'s update, \<open>send\<close>'s insert or \<open>fetch\<close>'s select of messages, the error
  reply with the store's message; and for a returned error of the connection check of
  \<open>send\<close> or \<open>fetch\<close>, the not-connected warning. Whenever a store call made by
  \<open>connect\<close> throws or returns an error, other than a user lookup error with code
  PGRST116, which \<open>connect\<close> takes for "no rows", the failing call is the last one, the
  reply is the error reply with the store's message, and \<open>last_message_id\<close> is as before.
\<close>

theorem store_failure_aborts_and_reports:
  "(disconnect authToken w = (reply, w') \<and> store_failed w w' \<longrightarrow>
      session w' = session w
      \<and> (\<exists>c e. last (calls_of w w') = (c, Some e)
           \<and> reply = (case e of
                Thrown msg \<Rightarrow> disconnect_unexpected msg
              | Returned code msg \<Rightarrow> disconnect_error (the (username (session w))) msg)))
   \<and> (send message authToken w2 = (reply2, w2') \<and> store_failed w2 w2' \<longrightarrow>
      session w2' = session w2
      \<and> (\<exists>c e. last (calls_of w2 w2') = (c, Some e)
           \<and> reply2 = (case e of
                Thrown msg \<Rightarrow> send_unexpected msg
              | Returned code msg \<Rightarrow>
                  (case c of Insert_message u t \<Rightarrow> send_error msg | _ \<Rightarrow> use_connect_first))))
   \<and> (fetch authToken w3 = (reply3, w3') \<and> store_failed w3 w3' \<longrightarrow>
      session w3' = session w3
      \<and> (\<exists>c e. last (calls_of w3 w3') = (c, Some e)
           \<and> reply3 = (case e of
                Thrown msg \<Rightarrow> fetch_unexpected msg
              | Returned code msg \<Rightarrow>
                  (case c of Select_messages_gt n \<Rightarrow> fetch_error msg | _ \<Rightarrow> use_connect_first))))
   \<and> (connect username0 authToken w4 = (reply4, w4') \<and> connect_store_failed w4 w4' \<longrightarrow>
      last_message_id (session w4') = last_message_id (session w4)
      \<and> (\<exists>c e. last (calls_of w4 w4') = (c, Some e)
           \<and> reply4 = (case e of
                Thrown msg \<Rightarrow> connect_unexpected msg
              | Returned code msg \<Rightarrow>
                  (case c of Select_users n \<Rightarrow> connect_fetch_error n msg
                   | Update_users n b \<Rightarrow> connect_update_error n msg
                   | Insert_user n b \<Rightarrow> connect_insert_error n msg
                   | _ \<Rightarrow> []))))"
  using disconnect_failure[of authToken w reply w'] send_failure[of message authToken w2 reply2 w2']
    fetch_failure[of authToken w3 reply3 w3'] connect_failure[of username0 authToken w4 reply4 w4']
  by blast

lemma down_disconnect:
  "disconnect (Some ''s3cret'') alice_world_store_down =
     (disconnect_error ''alice'' ''Service Unavailable'',
      alice_world\<lparr>faults := [],
        calls := [(Update_users ''alice'' False, Some (Returned ''503'' ''Service Unavailable''))]\<rparr>)"
  by (simp add: disconnect_def verify_def alice_world_store_down_def alice_world_def falsy_def
      update_users_def store_def Let_def)

lemma down_send:
  "send ''hi'' (Some ''s3cret'') alice_world_store_down =
     (use_connect_first,
      alice_world\<lparr>faults := [],
        calls := [(Select_user_single ''alice'', Some (Returned ''503'' ''Service Unavailable''))]\<rparr>)"
  by (simp add: send_def verify_def alice_world_store_down_def alice_world_def falsy_def
      select_user_single_def store_def Let_def)

lemma down_fetch:
  "fetch (Some ''s3cret'') alice_world_store_down =
     (use_connect_first,
      alice_world\<lparr>faults := [],
        calls := [(Select_user_single ''alice'', Some (Returned ''503'' ''Service Unavailable''))]\<rparr>)"
  by (simp add: fetch_def verify_def alice_world_store_down_def alice_world_def falsy_def
      select_user_single_def store_def Let_def)

lemma down_connect:
  "connect ''Alice'' (Some ''s3cret'') fresh_world_store_down =
     (connect_fetch_error ''alice'' ''Service Unavailable'',
      fresh_world\<lparr>session := \<lparr>username = Some ''alice'', last_message_id = 0\<rparr>, faults := [],
        calls := [(Select_users ''alice'', Some (Returned ''503'' ''Service Unavailable''))]\<rparr>)"
  by (simp add: connect_def verify_def fresh_world_store_down_def fresh_world_def norm_Alice
      select_users_def store_def Let_def)

theorem store_failure_aborts_and_reports_witness:
  "store_failed alice_world_store_down (snd (disconnect (Some ''s3cret'') alice_world_store_down))
   \<and> session (snd (disconnect (Some ''s3cret'') alice_world_store_down))
       = session alice_world_store_down
   \<and> store_failed alice_world_store_down (snd (send ''hi'' (Some ''s3cret'') alice_world_store_down))
   \<and> session (snd (send ''hi'' (Some ''s3cret'') alice_world_store_down))
       = session alice_world_store_down
   \<and> store_failed alice_world_store_down (snd (fetch (Some ''s3cret'') alice_world_store_down))
   \<and> session (snd (fetch (Some ''s3cret'') alice_world_store_down))
       = session alice_world_store_down
   \<and> connect_store_failed fresh_world_store_down
        (snd (connect ''Alice'' (Some ''s3cret'') fresh_world_store_down))
   \<and> last_message_id (session (snd (connect ''Alice'' (Some ''s3cret'') fresh_world_store_down)))
       = last_message_id (session fresh_world_store_down)"
proof -
  have h1: "store_failed alice_world_store_down
      (snd (disconnect (Some ''s3cret'') alice_world_store_down))"
    by (simp only: down_disconnect snd_conv)
       (simp add: store_failed_def calls_of_def alice_world_store_down_def alice_world_def)
  have h2: "store_failed alice_world_store_down
      (snd (send ''hi'' (Some ''s3cret'') alice_world_store_down))"
    by (simp only: down_send snd_conv)
       (simp add: store_failed_def calls_of_def alice_world_store_down_def alice_world_def)
  have h3: "store_failed alice_world_store_down
      (snd (fetch (Some ''s3cret'') alice_world_store_down))"
    by (simp only: down_fetch snd_conv)
       (simp add: store_failed_def calls_of_def alice_world_store_down_def alice_world_def)
  have h4: "connect_store_failed fresh_world_store_down
      (snd (connect ''Alice'' (Some ''s3cret'') fresh_world_store_down))"
    by (simp only: down_connect snd_conv)
       (simp add: connect_store_failed_def calls_of_def lookup_not_found_def
        fresh_world_store_down_def fresh_world_def)
  note c = store_failure_aborts_and_reports [of "Some ''s3cret''" alice_world_store_down
      "fst (disconnect (Some ''s3cret'') alice_world_store_down)"
      "snd (disconnect (Some ''s3cret'') alice_world_store_down)"
      "''hi''" alice_world_store_down
      "fst (send ''hi'' (Some ''s3cret'') alice_world_store_down)"
      "snd (send ''hi'' (Some ''s3cret'') alice_world_store_down)"
      alice_world_store_down
      "fst (fetch (Some ''s3cret'') alice_world_store_down)"
      "snd (fetch (Some ''s3cret'') alice_world_store_down)"
      "''Alice''" fresh_world_store_down
      "fst (connect ''Alice'' (Some ''s3cret'') fresh_world_store_down)"
      "snd (connect ''Alice'' (Some ''s3cret'') fresh_world_store_down)"]
  from h1 h2 h3 h4 c show ?thesis
    unfolding prod.collapse by blast
qed

lemma no_rows_connect:
  "connect ''Alice'' (Some ''s3cret'') fresh_world_no_rows =
     (connected_as ''alice'',
      fresh_world\<lparr>session := \<lparr>username = Some ''alice'', last_message_id = 0\<rparr>,
        puchchat_users := [\<lparr>u_username = ''alice'', u_is_connected = True\<rparr>], faults := [],
        calls := [(Select_users ''alice'', Some (Returned ''PGRST116'' ''The result contains 0 rows'')),
                  (Insert_user ''alice'' True, None)]\<rparr>)"
  by (simp add: connect_def verify_def fresh_world_no_rows_def fresh_world_def norm_Alice
      select_users_def store_def Let_def connect_upsert_def insert_user_def connect_done_def
      error_of_def)

text \<open>
  C2 as stated fails. A \<open>connect\<close> whose user lookup fails has already put the new
  name into the session: the username was \<open>null\<close> and is \<open>alice\<close> after the failed
  command. A \<open>send\<close> whose connection check fails with a returned error answers with
  the not-connected warning, which says nothing of the failure. And a \<open>connect\<close> whose
  user lookup returns an error with code PGRST116 does not abort: it goes on to the
  insert and returns its confirmation.
\<close>

theorem store_failure_changes_session_or_goes_unreported:
  "connect_store_failed fresh_world_store_down
      (snd (connect ''Alice'' (Some ''s3cret'') fresh_world_store_down))
   \<and> username (session fresh_world_store_down) = None
   \<and> username (session (snd (connect ''Alice'' (Some ''s3cret'') fresh_world_store_down)))
       = Some ''alice''
   \<and> store_failed alice_world_store_down
        (snd (send ''hi'' (Some ''s3cret'') alice_world_store_down))
   \<and> fst (send ''hi'' (Some ''s3cret'') alice_world_store_down) = use_connect_first
   \<and> store_failed fresh_world_no_rows
        (snd (connect ''Alice'' (Some ''s3cret'') fresh_world_no_rows))
   \<and> fst (connect ''Alice'' (Some ''s3cret'') fresh_world_no_rows) = connected_as ''alice''
   \<and> length (calls (snd (connect ''Alice'' (Some ''s3cret'') fresh_world_no_rows))) = 2"
  by (simp only: down_connect down_send no_rows_connect fst_conv snd_conv)
     (simp add: connect_store_failed_def store_failed_def calls_of_def
      lookup_not_found_def fresh_world_store_down_def alice_world_store_down_def
      fresh_world_no_rows_def fresh_world_def alice_world_def)

section \<open>Reconnecting the listener\<close>

text \<open>
  C4, as the code has it. A status report schedules a restart of the listener, with the
  fixed delay of 5000 ms, exactly when the status is \<open>CLOSED\<close>; \<open>CHANNEL_ERROR\<close>,
  \<open>TIMED_OUT\<close> and \<open>SUBSCRIBED\<close> schedule nothing, and no status report creates a
  channel. A start that throws schedules a retry with the same delay. Nothing but the
  \<open>SIGINT\<close> handler calls \<open>unsubscribe\<close> or ends the process: along any sequence of
  status reports and timers the list of unsubscribed channels and the exit flag stay as
  they are, and the handler unsubscribes the one channel the variable holds. There is no
  bound on retries: \<open>n\<close> rounds of a \<open>CLOSED\<close> report followed by its timer create
  \<open>n\<close> further channels, for every \<open>n\<close>.
\<close>

theorem only_closed_schedules_restart:
  "timers (step sess (Status st) l)
     = (if st = CLOSED \<and> \<not> exited l then timers l @ [5000] else timers l)
   \<and> created (step sess (Status st) l) = created l
   \<and> timers (startRealtimeListener (Some failure) l) = timers l @ [5000]
   \<and> (Sigint \<notin> set es \<longrightarrow>
        unsubscribed (run sess es l) = unsubscribed l \<and> exited (run sess es l) = exited l)
   \<and> unsubscribed (sigint l)
       = unsubscribed l @ (case realtimeChannel l of None \<Rightarrow> [] | Some c \<Rightarrow> [c])
   \<and> (\<not> exited l \<and> timers l = [] \<longrightarrow>
        created (run sess (concat (replicate n [Status CLOSED, Timer_fires None])) l)
          = created l + n)"
proof -
  have a: "timers (step sess (Status st) l)
     = (if st = CLOSED \<and> \<not> exited l then timers l @ [5000] else timers l)"
    by (simp add: step_def on_status_presence_rest on_status_timers)
  have b: "created (step sess (Status st) l) = created l"
    by (simp add: step_def on_status_presence_rest on_status_rest)
  have c: "timers (startRealtimeListener (Some failure) l) = timers l @ [5000]"
    by (cases failure) (simp_all add: startRealtimeListener_def)
  have d: "Sigint \<notin> set es \<longrightarrow>
        unsubscribed (run sess es l) = unsubscribed l \<and> exited (run sess es l) = exited l"
    using run_keeps by blast
  have e: "unsubscribed (sigint l)
       = unsubscribed l @ (case realtimeChannel l of None \<Rightarrow> [] | Some c \<Rightarrow> [c])"
    by (simp add: sigint_def split: option.splits)
  have f: "\<not> exited l \<and> timers l = [] \<longrightarrow>
        created (run sess (concat (replicate n [Status CLOSED, Timer_fires None])) l)
          = created l + n"
    using closed_restart_many[of l sess n] by simp
  from a b c d e f show ?thesis by blast
qed

theorem only_closed_schedules_restart_witness:
  "Sigint \<notin> set [Status CLOSED, Timer_fires None, Status TIMED_OUT]
   \<and> \<not> exited listener0 \<and> timers listener0 = []
   \<and> unsubscribed (run (session fresh_world) [Status CLOSED, Timer_fires None, Status TIMED_OUT] listener0)
       = unsubscribed listener0
   \<and> created (run (session fresh_world) (concat (replicate 3 [Status CLOSED, Timer_fires None])) listener0)
       = created listener0 + 3"
proof -
  have h1: "Sigint \<notin> set [Status CLOSED, Timer_fires None, Status TIMED_OUT]" by simp
  have h2: "\<not> exited listener0" "timers listener0 = []"
    by (simp_all add: listener0_def startRealtimeListener_def)
  note c = only_closed_schedules_restart [of "session fresh_world" _ listener0 _ "[Status CLOSED, Timer_fires None, Status TIMED_OUT]" 3]
  from h1 h2 c show ?thesis by blast
qed

text \<open>
  C4 as stated fails: after \<open>TIMED_OUT\<close> or \<open>CHANNEL_ERROR\<close> no timer is pending and no
  new channel is ever created, while \<open>CLOSED\<close> schedules the one restart; and after a
  \<open>CLOSED\<close>, the restart and an interrupt, the channel unsubscribed is channel 1, the
  replacement; channel 0 was not unsubscribed before the resubscription nor at shutdown.
\<close>

theorem timed_out_schedules_nothing:
  "timers (run (session fresh_world) [Status TIMED_OUT] listener0) = []
   \<and> timers (run (session fresh_world) [Status CHANNEL_ERROR] listener0) = []
   \<and> created (run (session fresh_world) [Status TIMED_OUT, Timer_fires None] listener0)
       = created listener0
   \<and> timers (run (session fresh_world) [Status CLOSED] listener0) = [5000]
   \<and> realtimeChannel (run (session fresh_world) [Status CLOSED, Timer_fires None] listener0) = Some 1
   \<and> unsubscribed (run (session fresh_world) [Status CLOSED, Timer_fires None, Sigint] listener0)
       = [1]"
  by (simp add: listener0_def step_def on_status_def on_status_presence_def
      startRealtimeListener_def sigint_def)

section \<open>The command gate comes first\<close>



end
